theory Spec2Isabelle
  imports Main
begin

section \<open>The Presto log data transformer\<close>

text \<open>
  A shallow embedding of \<^verbatim>\<open>query_predictor/predictor/data_transformer.py\<close>: the class
  \<^verbatim>\<open>DataTransformer\<close>, its dispatcher \<^verbatim>\<open>transform\<close> and its six predefined
  transformers. The held data frame is passed explicitly; a raised exception is a value
  that carries the data frame the object holds at the moment of the raise. Log messages
  are not modelled.
\<close>

subsection \<open>Values, exceptions and the table\<close>

text \<open>
  A cell of the table is a string, a number or the floating-point missing value. How the
  code points of a Python string are encoded in a \<open>string\<close> is left open: the only
  operation on the text of a cell besides comparison is Python's \<^verbatim>\<open>str.lower\<close>, which is
  a parameter (\<open>py_lower\<close> below). A column has a dtype: \<^verbatim>\<open>object\<close>, or a numeric one
  (\<^verbatim>\<open>int64\<close>, \<^verbatim>\<open>float64\<close>), whose cells are numbers and missing values.
\<close>

datatype val = Str string | Num int | NaN

datatype dtype = ObjectDtype | NumericDtype

fun is_Str :: "val \<Rightarrow> bool" where
  "is_Str (Str s) = True"
| "is_Str (Num n) = False"
| "is_Str NaN = False"

text \<open>A key of \<^verbatim>\<open>__getitem__\<close>: one label, or a tuple of labels.\<close>

datatype key = Label string | Tuple "string list"

text \<open>
  The exceptions. \<^verbatim>\<open>DataTransformerException\<close> carries its message and is raised by
  \<^verbatim>\<open>transform\<close> only; \<open>KeyError\<close>, \<open>AttributeError\<close>, \<open>ValueError\<close>, \<open>TypeError\<close>
  and \<open>RecursionError\<close> come from the table library and the Python runtime;
  \<open>CollaboratorError\<close> is whatever an external label creator, a custom function or an
  inherited attribute raises.
\<close>

datatype error =
    DataTransformerException string
  | KeyError key
  | AttributeError
  | ValueError
  | TypeError
  | RecursionError
  | CollaboratorError string

text \<open>
  The table: named columns in order, their dtypes, and the rows in order, each row holding
  one cell per column. A row handed to a row-wise function is the list of its
  (label, cell) pairs; a column taken out of the table is its dtype and its cells.
\<close>

record dataframe =
  columns :: "string list"
  dtypes :: "dtype list"
  rows :: "val list list"

type_synonym series = "(string \<times> val) list"

type_synonym column = "dtype \<times> val list"

definition cell :: "string list \<Rightarrow> val list \<Rightarrow> string \<Rightarrow> val" where
  "cell cols r c = (case map_of (zip cols r) c of Some v \<Rightarrow> v | None \<Rightarrow> NaN)"

definition dtype_of :: "dataframe \<Rightarrow> string \<Rightarrow> dtype" where
  "dtype_of d c =
     (case map_of (zip (columns d) (dtypes d)) c of Some dt \<Rightarrow> dt | None \<Rightarrow> ObjectDtype)"

text \<open>
  The data frames of the model: the column labels are distinct (the rows map column names
  to values), every column has a dtype and every row a cell per column, and a numeric
  column holds no string. For a duplicated label the library returns a sub-frame instead
  of a column; this is outside the model, and the properties below that read a column
  are stated for well-formed frames.
\<close>

definition wf_frame :: "dataframe \<Rightarrow> bool" where
  "wf_frame d \<longleftrightarrow>
     distinct (columns d) \<and>
     length (dtypes d) = length (columns d) \<and>
     list_all (\<lambda>r. length r = length (columns d)) (rows d) \<and>
     list_all (\<lambda>c. dtype_of d c = NumericDtype \<longrightarrow>
                     list_all (\<lambda>r. \<not> is_Str (cell (columns d) r c)) (rows d)) (columns d)"

text \<open>
  The outcome of a method of the transformer: \<open>Inr d\<close> when it returns holding \<open>d\<close>,
  \<open>Inl (e, d)\<close> when it raises \<open>e\<close> while the object holds \<open>d\<close>.
\<close>

type_synonym outcome = "(error \<times> dataframe) + dataframe"

text \<open>\<^verbatim>\<open>df[c]\<close> for a label \<open>c\<close>: the column with its dtype, or \<open>KeyError\<close>.\<close>

definition getitem_label :: "dataframe \<Rightarrow> string \<Rightarrow> error + column" where
  "getitem_label d c =
     (if c \<in> set (columns d)
      then Inr (dtype_of d c, map (\<lambda>r. cell (columns d) r c) (rows d))
      else Inl (KeyError (Label c)))"

text \<open>
  \<^verbatim>\<open>df[a, b, c]\<close> is \<^verbatim>\<open>df[(a, b, c)]\<close>: the tuple is looked up as one column label.
  The columns of the table are labelled by strings, so no column has that label.
\<close>

definition getitem_tuple :: "dataframe \<Rightarrow> string list \<Rightarrow> error + dataframe" where
  "getitem_tuple d ks = Inl (KeyError (Tuple ks))"

text \<open>\<^verbatim>\<open>df[mask]\<close> for a boolean series: the rows whose mask entry is true, in order.\<close>

definition getitem_mask :: "dataframe \<Rightarrow> bool list \<Rightarrow> dataframe" where
  "getitem_mask d m = d\<lparr>rows := map fst (filter snd (zip (rows d) m))\<rparr>"

text \<open>\<^verbatim>\<open>series == v\<close>: the element-wise comparison.\<close>

definition eq_scalar :: "column \<Rightarrow> val \<Rightarrow> bool list" where
  "eq_scalar s v = map (\<lambda>x. x = v) (snd s)"

text \<open>
  \<^verbatim>\<open>df[c] = series\<close>, the series having the rows' own index: an existing column is
  overwritten in place, cells and dtype, and a new one is appended as the last column.
\<close>

definition set_cell :: "string list \<Rightarrow> string \<Rightarrow> 'a \<Rightarrow> 'a list \<Rightarrow> 'a list" where
  "set_cell cols c v r = map (\<lambda>(k, x). if k = c then v else x) (zip cols r)"

definition setitem :: "dataframe \<Rightarrow> string \<Rightarrow> column \<Rightarrow> dataframe" where
  "setitem d c s =
     (if c \<in> set (columns d)
      then d\<lparr>dtypes := set_cell (columns d) c (fst s) (dtypes d),
             rows := map (\<lambda>(r, v). set_cell (columns d) c v r) (zip (rows d) (snd s))\<rparr>
      else d\<lparr>columns := columns d @ [c],
             dtypes := dtypes d @ [fst s],
             rows := map (\<lambda>(r, v). r @ [v]) (zip (rows d) (snd s))\<rparr>)"

text \<open>
  \<^verbatim>\<open>series.str.lower()\<close>. The \<^verbatim>\<open>.str\<close> accessor refuses (\<open>AttributeError\<close>) a column
  of numeric dtype, whatever it holds, and a column of dtype \<^verbatim>\<open>object\<close> whose present
  cells are all numbers; it accepts a column of dtype \<^verbatim>\<open>object\<close> that holds a string or
  no present cell at all. On an accepted column every string is lower-cased by
  \<^verbatim>\<open>str.lower\<close>, here \<open>low\<close>, every other cell becomes missing, and the result has dtype
  \<^verbatim>\<open>object\<close>.
\<close>

fun lower_val :: "(string \<Rightarrow> string) \<Rightarrow> val \<Rightarrow> val" where
  "lower_val low (Str s) = Str (low s)"
| "lower_val low (Num n) = NaN"
| "lower_val low NaN = NaN"

definition str_accessor_ok :: "column \<Rightarrow> bool" where
  "str_accessor_ok s \<longleftrightarrow>
     fst s = ObjectDtype \<and>
     (let present = filter (\<lambda>v. v \<noteq> NaN) (snd s) in present = [] \<or> list_ex is_Str present)"

definition str_lower :: "(string \<Rightarrow> string) \<Rightarrow> column \<Rightarrow> error + column" where
  "str_lower low s =
     (if str_accessor_ok s then Inr (ObjectDtype, map (lower_val low) (snd s))
      else Inl AttributeError)"

text \<open>
  \<^verbatim>\<open>df.apply(f, axis=1)\<close>: \<open>f\<close> is called once per row, in order, on the full row; the
  first exception ends the traversal. The dtype of the resulting series is inferred from
  its values: \<^verbatim>\<open>object\<close> when a value is a string, numeric when all are numbers or
  missing.
\<close>

definition infer_dtype :: "val list \<Rightarrow> dtype" where
  "infer_dtype vs = (if vs = [] \<or> list_ex is_Str vs then ObjectDtype else NumericDtype)"

fun apply_axis1 :: "(series \<Rightarrow> string + val) \<Rightarrow> string list \<Rightarrow> val list list \<Rightarrow> error + val list" where
  "apply_axis1 f cols [] = Inr []"
| "apply_axis1 f cols (r # rs) =
     (case f (zip cols r) of
        Inl e \<Rightarrow> Inl (CollaboratorError e)
      | Inr v \<Rightarrow> (case apply_axis1 f cols rs of Inl e \<Rightarrow> Inl e | Inr vs \<Rightarrow> Inr (v # vs)))"

subsection \<open>What the module imports\<close>

text \<open>
  The four column names of \<^verbatim>\<open>constant.py\<close> and the two label creators of
  \<^verbatim>\<open>label_creator.py\<close> are imported by the module and are parameters here;
  \<open>cpu_time_label\<close> stands for \<^verbatim>\<open>CPUTimeLabelCreator().label\<close> and
  \<open>peak_memory_label\<close> for \<^verbatim>\<open>PeakMemoryLabelCreator().label\<close>, a label or the
  description of the exception raised. \<open>py_lower\<close> is Python's \<^verbatim>\<open>str.lower\<close>.
  \<open>object_attr\<close> gives the attributes that the instance inherits from the Python runtime
  rather than from the class body: whether the attribute is truthy, and the exception
  that calling it without arguments raises, if any.
\<close>

record env =
  QUERY_COLUMN :: string
  QUERY_STATE_COLUMN :: string
  CPU_TIME_LABEL :: string
  PEAK_MEMORY_LABEL :: string
  cpu_time_label :: "series \<Rightarrow> string + val"
  peak_memory_label :: "series \<Rightarrow> string + val"
  py_lower :: "string \<Rightarrow> string"
  object_attr :: "string \<Rightarrow> (bool \<times> string option) option"

subsection \<open>The predefined transformers\<close>

definition create_cpu_time_label :: "env \<Rightarrow> dataframe \<Rightarrow> outcome" where
  "create_cpu_time_label E d =
     (case apply_axis1 (cpu_time_label E) (columns d) (rows d) of
        Inl e \<Rightarrow> Inl (e, d)
      | Inr vs \<Rightarrow> Inr (setitem d (CPU_TIME_LABEL E) (infer_dtype vs, vs)))"

definition create_peak_memory_label :: "env \<Rightarrow> dataframe \<Rightarrow> outcome" where
  "create_peak_memory_label E d =
     (case apply_axis1 (peak_memory_label E) (columns d) (rows d) of
        Inl e \<Rightarrow> Inl (e, d)
      | Inr vs \<Rightarrow> Inr (setitem d (PEAK_MEMORY_LABEL E) (infer_dtype vs, vs)))"

definition create_labels :: "env \<Rightarrow> dataframe \<Rightarrow> outcome" where
  "create_labels E d =
     (case create_cpu_time_label E d of
        Inl x \<Rightarrow> Inl x
      | Inr d1 \<Rightarrow> create_peak_memory_label E d1)"

definition drop_failed_queries :: "env \<Rightarrow> dataframe \<Rightarrow> outcome" where
  "drop_failed_queries E d =
     (if QUERY_STATE_COLUMN E \<in> set (columns d)
      then (case getitem_label d (QUERY_STATE_COLUMN E) of
              Inl e \<Rightarrow> Inl (e, d)
            | Inr s \<Rightarrow> Inr (getitem_mask d (eq_scalar s (Str ''FINISHED''))))
      else Inr d)"

definition to_lower_queries :: "env \<Rightarrow> dataframe \<Rightarrow> outcome" where
  "to_lower_queries E d =
     (case getitem_label d (QUERY_COLUMN E) of
        Inl e \<Rightarrow> Inl (e, d)
      | Inr s \<Rightarrow> (case str_lower (py_lower E) s of
                   Inl e \<Rightarrow> Inl (e, d)
                 | Inr s' \<Rightarrow> Inr (setitem d (QUERY_COLUMN E) s')))"

definition select_training_columns :: "env \<Rightarrow> dataframe \<Rightarrow> outcome" where
  "select_training_columns E d =
     (case getitem_tuple d [QUERY_COLUMN E, CPU_TIME_LABEL E, PEAK_MEMORY_LABEL E] of
        Inl e \<Rightarrow> Inl (e, d)
      | Inr d' \<Rightarrow> Inr d')"

subsection \<open>The dispatcher\<close>

text \<open>
  The object: the held data frame, the names of the predefined transformers to run and
  the custom functions, each returning a data frame or the description of the exception
  it raises.
\<close>

record data_transformer =
  data_frame :: dataframe
  func_strs :: "string list"
  funcs :: "(dataframe \<Rightarrow> string + dataframe) list"

text \<open>
  What \<^verbatim>\<open>getattr(self, name, None)\<close> can find: the three instance attributes, the
  methods and the docstring of the class body, and the inherited attributes.
\<close>

datatype predefined =
    CreateLabels | CreateCpuTimeLabel | CreatePeakMemoryLabel
  | DropFailedQueries | ToLowerQueries | SelectTrainingColumns

datatype attr =
    DataFrameAttr
  | FuncStrsAttr
  | FuncsAttr
  | InitMethod
  | TransformMethod
  | Transformer predefined
  | DocAttr
  | ObjectAttr bool "string option"

definition getattr :: "env \<Rightarrow> string \<Rightarrow> attr option" where
  "getattr E name =
     (if name = ''data_frame'' then Some DataFrameAttr
      else if name = ''func_strs'' then Some FuncStrsAttr
      else if name = ''funcs'' then Some FuncsAttr
      else if name = ''__init__'' then Some InitMethod
      else if name = ''transform'' then Some TransformMethod
      else if name = ''create_labels'' then Some (Transformer CreateLabels)
      else if name = ''create_cpu_time_label'' then Some (Transformer CreateCpuTimeLabel)
      else if name = ''create_peak_memory_label'' then Some (Transformer CreatePeakMemoryLabel)
      else if name = ''drop_failed_queries'' then Some (Transformer DropFailedQueries)
      else if name = ''to_lower_queries'' then Some (Transformer ToLowerQueries)
      else if name = ''select_training_columns'' then Some (Transformer SelectTrainingColumns)
      else if name = ''__doc__'' then Some DocAttr
      else (case object_attr E name of
              None \<Rightarrow> None
            | Some (b, r) \<Rightarrow> Some (ObjectAttr b r)))"

text \<open>
  The test \<^verbatim>\<open>if transformer:\<close>. A bound method and a non-empty string are truthy, a
  sequence is truthy when it is not empty, and the truth value of a data frame raises
  \<open>ValueError\<close>.
\<close>

fun truth :: "data_transformer \<Rightarrow> attr \<Rightarrow> error + bool" where
  "truth t DataFrameAttr = Inl ValueError"
| "truth t FuncStrsAttr = Inr (func_strs t \<noteq> [])"
| "truth t FuncsAttr = Inr (funcs t \<noteq> [])"
| "truth t InitMethod = Inr True"
| "truth t TransformMethod = Inr True"
| "truth t (Transformer m) = Inr True"
| "truth t DocAttr = Inr True"
| "truth t (ObjectAttr b r) = Inr b"

fun run_method :: "env \<Rightarrow> predefined \<Rightarrow> dataframe \<Rightarrow> outcome" where
  "run_method E CreateLabels d = create_labels E d"
| "run_method E CreateCpuTimeLabel d = create_cpu_time_label E d"
| "run_method E CreatePeakMemoryLabel d = create_peak_memory_label E d"
| "run_method E DropFailedQueries d = drop_failed_queries E d"
| "run_method E ToLowerQueries d = to_lower_queries E d"
| "run_method E SelectTrainingColumns d = select_training_columns E d"

text \<open>
  The call \<^verbatim>\<open>transformer()\<close>, its result discarded. \<open>self_transform\<close> is the method
  \<^verbatim>\<open>transform\<close> itself, one stack frame deeper. \<^verbatim>\<open>__init__\<close> lacks its argument and
  the sequences and the docstring are not callable: \<open>TypeError\<close>.
\<close>

fun call :: "env \<Rightarrow> (data_transformer \<Rightarrow> outcome) \<Rightarrow> data_transformer \<Rightarrow> attr \<Rightarrow> outcome" where
  "call E self_transform t DataFrameAttr = Inl (TypeError, data_frame t)"
| "call E self_transform t FuncStrsAttr = Inl (TypeError, data_frame t)"
| "call E self_transform t FuncsAttr = Inl (TypeError, data_frame t)"
| "call E self_transform t InitMethod = Inl (TypeError, data_frame t)"
| "call E self_transform t TransformMethod = self_transform t"
| "call E self_transform t (Transformer m) = run_method E m (data_frame t)"
| "call E self_transform t DocAttr = Inl (TypeError, data_frame t)"
| "call E self_transform t (ObjectAttr b r) =
     (case r of
        Some e \<Rightarrow> Inl (CollaboratorError e, data_frame t)
      | None \<Rightarrow> Inr (data_frame t))"

definition unavailable :: "string \<Rightarrow> string" where
  "unavailable func_str = func_str @ '' is not an available transformer''"

text \<open>The body of the first loop of \<^verbatim>\<open>transform\<close>, for one \<open>func_str\<close>.\<close>

definition step :: "env \<Rightarrow> (data_transformer \<Rightarrow> outcome) \<Rightarrow> data_transformer \<Rightarrow> string \<Rightarrow> outcome" where
  "step E self_transform t func_str =
     (case getattr E func_str of
        None \<Rightarrow> Inl (DataTransformerException (unavailable func_str), data_frame t)
      | Some a \<Rightarrow>
          (case truth t a of
             Inl e \<Rightarrow> Inl (e, data_frame t)
           | Inr b \<Rightarrow>
               if b then call E self_transform t a
               else Inl (DataTransformerException (unavailable func_str), data_frame t)))"

fun run_func_strs ::
  "env \<Rightarrow> (data_transformer \<Rightarrow> outcome) \<Rightarrow> string list \<Rightarrow> data_transformer \<Rightarrow> outcome" where
  "run_func_strs E self_transform [] t = Inr (data_frame t)"
| "run_func_strs E self_transform (s # ss) t =
     (case step E self_transform t s of
        Inl x \<Rightarrow> Inl x
      | Inr d \<Rightarrow> run_func_strs E self_transform ss (t\<lparr>data_frame := d\<rparr>))"

text \<open>The second loop: each custom function replaces the held data frame.\<close>

fun run_funcs :: "(dataframe \<Rightarrow> string + dataframe) list \<Rightarrow> dataframe \<Rightarrow> outcome" where
  "run_funcs [] d = Inr d"
| "run_funcs (f # fs) d =
     (case f d of
        Inl e \<Rightarrow> Inl (CollaboratorError e, d)
      | Inr d' \<Rightarrow> run_funcs fs d')"

text \<open>
  \<^verbatim>\<open>transform\<close>. A transformer name may be \<^verbatim>\<open>transform\<close> itself, so the method is
  recursive; the first argument is the number of stack frames the interpreter still
  allows, and entering the method with none left raises \<open>RecursionError\<close>.
\<close>

primrec transform :: "env \<Rightarrow> nat \<Rightarrow> data_transformer \<Rightarrow> outcome" where
  "transform E 0 t = Inl (RecursionError, data_frame t)"
| "transform E (Suc depth) t =
     (case run_func_strs E (transform E depth) (func_strs t) t of
        Inl x \<Rightarrow> Inl x
      | Inr d \<Rightarrow> run_funcs (funcs t) d)"

subsection \<open>Notions used to state the properties\<close>

text \<open>The data frame the object holds after a method ended, normally or not.\<close>

fun held_frame :: "outcome \<Rightarrow> dataframe" where
  "held_frame (Inl (e, d)) = d"
| "held_frame (Inr d) = d"

text \<open>The rows of a data frame whose query-state cell is \<^verbatim>\<open>FINISHED\<close>, in their order.\<close>

definition finished_rows :: "env \<Rightarrow> dataframe \<Rightarrow> val list list" where
  "finished_rows E d =
     filter (\<lambda>r. cell (columns d) r (QUERY_STATE_COLUMN E) = Str ''FINISHED'') (rows d)"

text \<open>
  A name is unresolved when \<^verbatim>\<open>getattr\<close> finds no attribute of that name or finds one
  whose truth value is false.
\<close>

definition unresolved :: "env \<Rightarrow> data_transformer \<Rightarrow> string \<Rightarrow> bool" where
  "unresolved E t s = (case getattr E s of None \<Rightarrow> True | Some a \<Rightarrow> truth t a = Inr False)"

text \<open>
  The specification's account of one custom function: it receives the data frame the
  previous step produced and its return value replaces the held data frame; after a
  failure nothing more runs.
\<close>

definition then_custom :: "outcome \<Rightarrow> (dataframe \<Rightarrow> string + dataframe) \<Rightarrow> outcome" where
  "then_custom acc f =
     (case acc of
        Inl x \<Rightarrow> Inl x
      | Inr d \<Rightarrow> (case f d of Inl e \<Rightarrow> Inl (CollaboratorError e, d) | Inr d' \<Rightarrow> Inr d'))"

text \<open>
  The specification's account of the predefined steps: each named operation is applied
  to the data frame the previous one left, in the order given, and the first failure
  ends the run.
\<close>

fun method_name :: "predefined \<Rightarrow> string" where
  "method_name CreateLabels = ''create_labels''"
| "method_name CreateCpuTimeLabel = ''create_cpu_time_label''"
| "method_name CreatePeakMemoryLabel = ''create_peak_memory_label''"
| "method_name DropFailedQueries = ''drop_failed_queries''"
| "method_name ToLowerQueries = ''to_lower_queries''"
| "method_name SelectTrainingColumns = ''select_training_columns''"

fun run_predefined :: "env \<Rightarrow> predefined list \<Rightarrow> dataframe \<Rightarrow> outcome" where
  "run_predefined E [] d = Inr d"
| "run_predefined E (CreateLabels # ms) d =
     (case create_labels E d of Inl x \<Rightarrow> Inl x | Inr d' \<Rightarrow> run_predefined E ms d')"
| "run_predefined E (CreateCpuTimeLabel # ms) d =
     (case create_cpu_time_label E d of Inl x \<Rightarrow> Inl x | Inr d' \<Rightarrow> run_predefined E ms d')"
| "run_predefined E (CreatePeakMemoryLabel # ms) d =
     (case create_peak_memory_label E d of Inl x \<Rightarrow> Inl x | Inr d' \<Rightarrow> run_predefined E ms d')"
| "run_predefined E (DropFailedQueries # ms) d =
     (case drop_failed_queries E d of Inl x \<Rightarrow> Inl x | Inr d' \<Rightarrow> run_predefined E ms d')"
| "run_predefined E (ToLowerQueries # ms) d =
     (case to_lower_queries E d of Inl x \<Rightarrow> Inl x | Inr d' \<Rightarrow> run_predefined E ms d')"
| "run_predefined E (SelectTrainingColumns # ms) d =
     (case select_training_columns E d of Inl x \<Rightarrow> Inl x | Inr d' \<Rightarrow> run_predefined E ms d')"

text \<open>A custom function that always returns, as a custom function of the pipeline.\<close>

definition returning :: "(dataframe \<Rightarrow> dataframe) \<Rightarrow> dataframe \<Rightarrow> string + dataframe" where
  "returning g d = Inr (g d)"

subsection \<open>Example inputs\<close>

text \<open>
  Lower-casing of the ASCII letters, which is what \<^verbatim>\<open>str.lower\<close> does on ASCII text.
\<close>

definition ascii_lower_char :: "char \<Rightarrow> char" where
  "ascii_lower_char ch =
     (let n = (of_char ch :: nat) in if 65 \<le> n \<and> n \<le> 90 then char_of (n + 32) else ch)"

definition ascii_lower :: "string \<Rightarrow> string" where
  "ascii_lower s = map ascii_lower_char s"

text \<open>
  A label creator that reads one numeric column of the row and fails when the row has no
  such column, column names, and three inherited attributes: \<^verbatim>\<open>__weakref__\<close> is
  \<^verbatim>\<open>None\<close>, \<^verbatim>\<open>__hash__\<close> is a method that needs no argument and \<^verbatim>\<open>__class__\<close> is the
  class, whose constructor needs one.
\<close>

definition example_label :: "string \<Rightarrow> series \<Rightarrow> string + val" where
  "example_label c row =
     (case map_of row c of
        None \<Rightarrow> Inl ''KeyError''
      | Some v \<Rightarrow> (case v of
                    Num n \<Rightarrow> Inr (Str (if n < 1000 then ''low'' else ''high''))
                  | Str s \<Rightarrow> Inl ''TypeError''
                  | NaN \<Rightarrow> Inr (Str ''low'')))"

definition example_object_attr :: "string \<Rightarrow> (bool \<times> string option) option" where
  "example_object_attr name =
     (if name = ''__weakref__'' then Some (False, None)
      else if name = ''__hash__'' then Some (True, None)
      else if name = ''__class__'' then Some (True, Some ''TypeError'')
      else None)"

definition example_env :: env where
  "example_env =
     \<lparr>QUERY_COLUMN = ''query'', QUERY_STATE_COLUMN = ''query_state'',
      CPU_TIME_LABEL = ''cpu_time_label'', PEAK_MEMORY_LABEL = ''peak_memory_label'',
      cpu_time_label = example_label ''cpu_ms'',
      peak_memory_label = example_label ''mem_bytes'',
      py_lower = ascii_lower,
      object_attr = example_object_attr\<rparr>"

text \<open>Five logged queries: three finished, two failed.\<close>

definition example_log :: dataframe where
  "example_log =
     \<lparr>columns = [''query'', ''query_state'', ''cpu_ms'', ''mem_bytes''],
      dtypes = [ObjectDtype, ObjectDtype, NumericDtype, NumericDtype],
      rows = [[Str ''SELECT 1'', Str ''FINISHED'', Num 10, Num 2000],
              [Str ''SELECT x'', Str ''FAILED'', Num 5, Num 100],
              [Str ''Show T'', Str ''FINISHED'', Num 5000, Num 50],
              [Str ''DROP t'', Str ''FAILED'', Num 7, Num 70],
              [Str ''select A'', Str ''FINISHED'', Num 20, Num 9000]]\<rparr>"

text \<open>A log with the CPU time but without the peak memory.\<close>

definition example_no_memory :: dataframe where
  "example_no_memory =
     \<lparr>columns = [''query'', ''cpu_ms''], dtypes = [ObjectDtype, NumericDtype],
      rows = [[Str ''SELECT 1'', Num 10]]\<rparr>"

text \<open>A small log with both metrics.\<close>

definition example_small :: dataframe where
  "example_small =
     \<lparr>columns = [''query'', ''cpu_ms'', ''mem_bytes''],
      dtypes = [ObjectDtype, NumericDtype, NumericDtype],
      rows = [[Str ''SELECT 1'', Num 10, Num 2000]]\<rparr>"

text \<open>A query column of dtype \<^verbatim>\<open>float64\<close> that holds missing values only.\<close>

definition example_missing :: dataframe where
  "example_missing =
     \<lparr>columns = [''query''], dtypes = [NumericDtype], rows = [[NaN], [NaN]]\<rparr>"

text \<open>Two custom functions: keep the first row only; drop the first row.\<close>

definition example_head :: "dataframe \<Rightarrow> string + dataframe" where
  "example_head d = Inr (d\<lparr>rows := take 1 (rows d)\<rparr>)"

definition example_tail :: "dataframe \<Rightarrow> string + dataframe" where
  "example_tail d = Inr (d\<lparr>rows := drop 1 (rows d)\<rparr>)"

section \<open>Properties\<close>

subsection \<open>The table operations\<close>

lemma mask_filter: "map fst (filter snd (zip rs (map P rs))) = filter P rs"
  by (induction rs) auto

lemma length_set_cell: "length r = length cols \<Longrightarrow> length (set_cell cols c v r) = length cols"
  by (simp add: set_cell_def)

lemma cell_set_cell:
  "length r = length cols \<Longrightarrow>
   cell cols (set_cell cols c v r) c' = (if c' = c \<and> c \<in> set cols then v else cell cols r c')"
proof (induction cols r rule: list_induct2')
  case (4 k ks x xs)
  then show ?case
    by (auto simp: cell_def set_cell_def split: option.splits)
qed (simp_all add: cell_def set_cell_def)

lemma set_cell_twice:
  "length r = length cols \<Longrightarrow> set_cell cols c w (set_cell cols c v r) = set_cell cols c w r"
proof (induction cols r rule: list_induct2')
  case (4 k ks x xs)
  then show ?case by (auto simp: set_cell_def)
qed (simp_all add: set_cell_def)


lemma apply_axis1_error: "apply_axis1 f cols rs = Inl e \<Longrightarrow> \<exists>m. e = CollaboratorError m"
  by (induction rs) (auto split: sum.splits)



lemma ascii_lower_char_idem: "ascii_lower_char (ascii_lower_char c) = ascii_lower_char c"
  by (simp add: ascii_lower_char_def Let_def)

lemma ascii_lower_idem: "ascii_lower (ascii_lower s) = ascii_lower s"
  by (simp add: ascii_lower_def ascii_lower_char_idem)

lemma lower_val_idem:
  "(\<And>s. low (low s) = low s) \<Longrightarrow> lower_val low (lower_val low v) = lower_val low v"
  by (cases v) simp_all

lemma map_of_set_cell:
  "length xs = length cols \<Longrightarrow>
   map_of (zip cols (set_cell cols c v xs)) c' =
     (if c' = c \<and> c \<in> set cols then Some v else map_of (zip cols xs) c')"
proof (induction cols xs rule: list_induct2')
  case (4 k ks x xs)
  then show ?case by (auto simp: set_cell_def)
qed (simp_all add: set_cell_def)

lemma set_cell_same:
  "distinct cols \<Longrightarrow> length xs = length cols \<Longrightarrow> map_of (zip cols xs) c = Some v \<Longrightarrow>
   set_cell cols c v xs = xs"
proof (induction cols xs rule: list_induct2')
  case (4 k ks x xs)
  show ?case
  proof (cases "k = c")
    case True
    with 4 have "c \<notin> set ks" and "x = v" by auto
    then have "map (\<lambda>(k, x). if k = c then v else x) (zip ks xs) = map snd (zip ks xs)"
      by (intro map_cong) (auto dest: set_zip_leftD)
    with 4 True \<open>x = v\<close> show ?thesis by (simp add: set_cell_def)
  next
    case False
    with 4 show ?thesis by (simp add: set_cell_def)
  qed
qed (simp_all add: set_cell_def)

lemma wf_frame_row: "wf_frame d \<Longrightarrow> r \<in> set (rows d) \<Longrightarrow> length r = length (columns d)"
  by (auto simp: wf_frame_def list_all_iff)

lemma getitem_setitem:
  assumes "c \<in> set cols" and "\<forall>r\<in>set rs. length r = length cols" and "length rs = length vs"
  shows "map (\<lambda>r. cell cols r c) (map (\<lambda>(r, v). set_cell cols c v r) (zip rs vs)) = vs"
  using assms(3,2)
proof (induction rs vs rule: list_induct2)
  case Nil
  then show ?case by simp
next
  case (Cons r rs v vs)
  then show ?case using assms(1) by (simp add: cell_set_cell)
qed

lemma setitem_again:
  assumes "\<forall>r\<in>set rs. length r = length cols" and "length rs = length vs"
  shows "map (\<lambda>(r, v). set_cell cols c v r) (zip (map (\<lambda>(r, v). set_cell cols c v r) (zip rs vs)) vs)
         = map (\<lambda>(r, v). set_cell cols c v r) (zip rs vs)"
  using assms(2,1)
proof (induction rs vs rule: list_induct2)
  case Nil
  then show ?case by simp
next
  case (Cons r rs v vs)
  then show ?case by (simp add: set_cell_twice)
qed

lemma str_accessor_ok_lowered: "str_accessor_ok (ObjectDtype, map (lower_val low) vs)"
proof -
  have "\<forall>v \<in> set (filter (\<lambda>v. v \<noteq> NaN) (map (lower_val low) vs)). is_Str v"
  proof
    fix v assume "v \<in> set (filter (\<lambda>v. v \<noteq> NaN) (map (lower_val low) vs))"
    then obtain w where "v = lower_val low w" and "v \<noteq> NaN" by auto
    then show "is_Str v" by (cases w) simp_all
  qed
  then show ?thesis
    unfolding str_accessor_ok_def Let_def
    by (cases "filter (\<lambda>v. v \<noteq> NaN) (map (lower_val low) vs)") (simp_all add: list_ex_iff)
qed

subsection \<open>The predefined transformers\<close>

lemma to_lower_queries_ok:
  assumes "QUERY_COLUMN E \<in> set (columns d)"
    and "str_accessor_ok (dtype_of d (QUERY_COLUMN E),
           map (\<lambda>r. cell (columns d) r (QUERY_COLUMN E)) (rows d))"
  shows "to_lower_queries E d =
     Inr (d\<lparr>dtypes := set_cell (columns d) (QUERY_COLUMN E) ObjectDtype (dtypes d),
            rows := map (\<lambda>r. set_cell (columns d) (QUERY_COLUMN E)
                               (lower_val (py_lower E) (cell (columns d) r (QUERY_COLUMN E))) r)
                        (rows d)\<rparr>)"
proof -
  have "map (\<lambda>(r, v). set_cell (columns d) (QUERY_COLUMN E) v r)
          (zip (rows d) (map (\<lambda>r. lower_val (py_lower E) (cell (columns d) r (QUERY_COLUMN E)))
                             (rows d)))
        = map (\<lambda>r. set_cell (columns d) (QUERY_COLUMN E)
                       (lower_val (py_lower E) (cell (columns d) r (QUERY_COLUMN E))) r) (rows d)"
    by (induction "rows d") (simp_all add: zip_map2 comp_def case_prod_beta zip_same_conv_map)
  then show ?thesis
    using assms
    by (simp add: to_lower_queries_def getitem_label_def str_lower_def setitem_def comp_def)
qed

lemma drop_failed_queries_eq:
  "drop_failed_queries E d =
     Inr (if QUERY_STATE_COLUMN E \<in> set (columns d)
          then d\<lparr>rows := filter (\<lambda>r. cell (columns d) r (QUERY_STATE_COLUMN E) = Str ''FINISHED'')
                               (rows d)\<rparr>
          else d)"
  by (simp add: drop_failed_queries_def getitem_label_def getitem_mask_def eq_scalar_def comp_def
      mask_filter [where P = "\<lambda>r. cell (columns d) r (QUERY_STATE_COLUMN E) = Str ''FINISHED''",
        simplified])

lemma setitem_existing:
  "c \<in> set (columns d) \<Longrightarrow>
   columns (setitem d c (dt, vs)) = columns d \<and>
   dtypes (setitem d c (dt, vs)) = set_cell (columns d) c dt (dtypes d) \<and>
   rows (setitem d c (dt, vs)) = map (\<lambda>(r, v). set_cell (columns d) c v r) (zip (rows d) vs)"
  by (simp add: setitem_def)

lemma setitem_same:
  assumes "wf_frame d" and "c \<in> set (columns d)" and "length vs = length (rows d)"
  shows "setitem (setitem d c (dt, vs)) c (dt, vs) = setitem d c (dt, vs)"
    and "getitem_label (setitem d c (dt, vs)) c = Inr (dt, vs)"
proof -
  define d1 where "d1 = setitem d c (dt, vs)"
  have rows_len: "\<forall>r\<in>set (rows d). length r = length (columns d)"
    using assms(1) by (auto simp: wf_frame_row)
  have dts_len: "length (dtypes d) = length (columns d)"
    using assms(1) by (simp add: wf_frame_def)
  have len: "length (rows d) = length vs" using assms(3) by simp
  have cols1: "columns d1 = columns d"
    and dts1: "dtypes d1 = set_cell (columns d) c dt (dtypes d)"
    and rows1: "rows d1 = map (\<lambda>(r, v). set_cell (columns d) c v r) (zip (rows d) vs)"
    using setitem_existing [OF assms(2), of dt vs] by (simp_all add: d1_def)
  have "map (\<lambda>(r, v). set_cell (columns d1) c v r) (zip (rows d1) vs) = rows d1"
    unfolding rows1 cols1 by (rule setitem_again [OF rows_len len])
  moreover have "set_cell (columns d1) c dt (dtypes d1) = dtypes d1"
    unfolding dts1 cols1 using dts_len by (rule set_cell_twice)
  moreover have c1: "c \<in> set (columns d1)" using assms(2) cols1 by simp
  ultimately have "setitem d1 c (dt, vs) = d1" by (simp add: setitem_def)
  then show "setitem (setitem d c (dt, vs)) c (dt, vs) = setitem d c (dt, vs)"
    by (simp add: d1_def)
  have "map (\<lambda>r. cell (columns d1) r c) (rows d1) = vs"
    unfolding rows1 cols1 by (rule getitem_setitem [OF assms(2) rows_len len])
  moreover have "dtype_of d1 c = dt"
    using assms(2) dts_len by (simp add: dtype_of_def dts1 cols1 map_of_set_cell)
  ultimately have "getitem_label d1 c = Inr (dt, vs)"
    using c1 by (simp add: getitem_label_def)
  then show "getitem_label (setitem d c (dt, vs)) c = Inr (dt, vs)" by (simp add: d1_def)
qed

lemma to_lower_queries_again:
  assumes "wf_frame d" and idem: "\<And>s. py_lower E (py_lower E s) = py_lower E s"
  shows "to_lower_queries E (held_frame (to_lower_queries E d)) = to_lower_queries E d"
proof (cases "getitem_label d (QUERY_COLUMN E)")
  case (Inl e)
  then show ?thesis by (simp add: to_lower_queries_def)
next
  case (Inr s)
  obtain dt col where s: "s = (dt, col)" by (cases s)
  from Inr s have present: "QUERY_COLUMN E \<in> set (columns d)"
    and len: "length col = length (rows d)"
    by (auto simp: getitem_label_def split: if_splits)
  show ?thesis
  proof (cases "str_accessor_ok s")
    case False
    with Inr show ?thesis by (simp add: to_lower_queries_def str_lower_def)
  next
    case True
    define vs where "vs = map (lower_val (py_lower E)) col"
    have lenvs: "length vs = length (rows d)" using len by (simp add: vs_def)
    have first: "to_lower_queries E d = Inr (setitem d (QUERY_COLUMN E) (ObjectDtype, vs))"
      using Inr True s by (simp add: to_lower_queries_def str_lower_def vs_def)
    have ok: "str_accessor_ok (ObjectDtype, vs)" unfolding vs_def by (rule str_accessor_ok_lowered)
    have low: "map (lower_val (py_lower E)) vs = vs"
      by (simp add: vs_def lower_val_idem [of "py_lower E", OF idem])
    have "to_lower_queries E (setitem d (QUERY_COLUMN E) (ObjectDtype, vs))
          = Inr (setitem d (QUERY_COLUMN E) (ObjectDtype, vs))"
      using setitem_same [OF assms(1) present lenvs, of ObjectDtype] ok low
      by (simp add: to_lower_queries_def str_lower_def)
    with first show ?thesis by simp
  qed
qed

subsection \<open>The dispatcher\<close>

lemma transform_pos:
  "0 < depth \<Longrightarrow>
   transform E depth t =
     (case run_func_strs E (transform E (depth - 1)) (func_strs t) t of
        Inl x \<Rightarrow> Inl x
      | Inr d \<Rightarrow> run_funcs (funcs t) d)"
  by (cases depth) simp_all

lemma run_func_strs_append:
  "run_func_strs E tr (xs @ ys) t =
     (case run_func_strs E tr xs t of
        Inl x \<Rightarrow> Inl x
      | Inr d \<Rightarrow> run_func_strs E tr ys (t\<lparr>data_frame := d\<rparr>))"
  by (induction xs arbitrary: t) (auto split: sum.splits)

lemma getattr_drop_failed_queries:
  "getattr E ''drop_failed_queries'' = Some (Transformer DropFailedQueries)"
  by (simp add: getattr_def)

lemma step_drop_failed_queries:
  "step E tr t ''drop_failed_queries'' = drop_failed_queries E (data_frame t)"
  by (simp add: step_def getattr_drop_failed_queries)

lemma step_to_lower_queries:
  "step E tr t ''to_lower_queries'' = to_lower_queries E (data_frame t)"
  by (simp add: step_def getattr_def)

lemma str_accessor_ok_strings:
  assumes "\<forall>v\<in>set vs. is_Str v"
  shows "str_accessor_ok (ObjectDtype, vs)"
proof -
  have "filter (\<lambda>v. v \<noteq> NaN) vs = vs"
  proof (rule filter_True, rule ballI)
    fix v assume "v \<in> set vs"
    with assms have "is_Str v" by blast
    then show "v \<noteq> NaN" by (cases v) simp_all
  qed
  then show ?thesis
    using assms by (cases vs) (simp_all add: str_accessor_ok_def Let_def list_ex_iff)
qed

lemma example_log_finished:
  "finished_rows example_env example_log =
     [[Str ''SELECT 1'', Str ''FINISHED'', Num 10, Num 2000],
      [Str ''Show T'', Str ''FINISHED'', Num 5000, Num 50],
      [Str ''select A'', Str ''FINISHED'', Num 20, Num 9000]]"
  by (simp add: finished_rows_def example_env_def example_log_def cell_def)


lemma step_create_labels: "step E tr t ''create_labels'' = create_labels E (data_frame t)"
  by (simp add: step_def getattr_def)

lemma step_select_training_columns:
  "step E tr t ''select_training_columns'' = select_training_columns E (data_frame t)"
  by (simp add: step_def getattr_def)

lemma foldl_then_custom_Inl: "foldl then_custom (Inl x) fs = Inl x"
  by (induction fs) (simp_all add: then_custom_def)

lemma run_funcs_foldl: "run_funcs fs d = foldl then_custom (Inr d) fs"
  by (induction fs arbitrary: d) (simp_all add: then_custom_def foldl_then_custom_Inl split: sum.splits)

lemma truth_data_frame: "truth (t\<lparr>data_frame := d\<rparr>) a = truth t a"
  by (cases a) simp_all

lemma unresolved_data_frame: "unresolved E (t\<lparr>data_frame := d\<rparr>) s = unresolved E t s"
  by (simp add: unresolved_def truth_data_frame split: option.splits)

lemma step_unresolved:
  "unresolved E t s \<Longrightarrow>
   step E tr t s = Inl (DataTransformerException (unavailable s), data_frame t)"
  by (auto simp: unresolved_def step_def split: option.splits)

lemma unavailable_inj: "unavailable a = unavailable b \<Longrightarrow> a = b"
  by (simp add: unavailable_def)

lemma getattr_transform: "getattr E ''transform'' = Some TransformMethod"
  by (simp add: getattr_def)

lemma getattr_TransformMethod: "getattr E s = Some TransformMethod \<Longrightarrow> s = ''transform''"
  by (simp add: getattr_def split: if_splits option.splits prod.splits)

lemma getattr_CreateLabels:
  "getattr E s = Some (Transformer CreateLabels) \<Longrightarrow> s = ''create_labels''"
  by (simp add: getattr_def split: if_splits option.splits prod.splits)

lemma create_cpu_time_label_raise:
  "create_cpu_time_label E d = Inl (e, d') \<Longrightarrow> d' = d \<and> (\<exists>m. e = CollaboratorError m)"
  by (auto simp: create_cpu_time_label_def split: sum.splits dest: apply_axis1_error)

lemma create_peak_memory_label_raise:
  "create_peak_memory_label E d = Inl (e, d') \<Longrightarrow> d' = d \<and> (\<exists>m. e = CollaboratorError m)"
  by (auto simp: create_peak_memory_label_def split: sum.splits dest: apply_axis1_error)

lemma create_labels_raise:
  assumes "create_labels E d = Inl (e, d')"
  shows "(\<exists>m. e = CollaboratorError m) \<and>
         (d' = d \<or> (\<exists>vs. apply_axis1 (cpu_time_label E) (columns d) (rows d) = Inr vs \<and>
                         d' = setitem d (CPU_TIME_LABEL E) (infer_dtype vs, vs)))"
proof (cases "create_cpu_time_label E d")
  case (Inl x)
  with assms have "create_cpu_time_label E d = Inl (e, d')" by (simp add: create_labels_def)
  from create_cpu_time_label_raise [OF this] show ?thesis by blast
next
  case (Inr d1)
  with assms have "create_peak_memory_label E d1 = Inl (e, d')" by (simp add: create_labels_def)
  from create_peak_memory_label_raise [OF this] have "d' = d1" and "\<exists>m. e = CollaboratorError m"
    by blast+
  moreover from Inr have "\<exists>vs. apply_axis1 (cpu_time_label E) (columns d) (rows d) = Inr vs \<and>
                         d1 = setitem d (CPU_TIME_LABEL E) (infer_dtype vs, vs)"
    by (auto simp: create_cpu_time_label_def split: sum.splits)
  ultimately show ?thesis by blast
qed

lemma drop_failed_queries_raise: "drop_failed_queries E d \<noteq> Inl x"
  by (simp add: drop_failed_queries_eq)

lemma to_lower_queries_raise:
  "to_lower_queries E d = Inl (e, d') \<Longrightarrow>
   d' = d \<and> (e = KeyError (Label (QUERY_COLUMN E)) \<or> e = AttributeError)"
  by (auto simp: to_lower_queries_def getitem_label_def str_lower_def split: sum.splits if_splits)

lemma select_training_columns_raise:
  "select_training_columns E d =
     Inl (KeyError (Tuple [QUERY_COLUMN E, CPU_TIME_LABEL E, PEAK_MEMORY_LABEL E]), d)"
  by (simp add: select_training_columns_def getitem_tuple_def)

lemma run_method_raise:
  assumes "run_method E m d = Inl (e, d')"
  shows "(\<forall>msg. e \<noteq> DataTransformerException msg) \<and> (m \<noteq> CreateLabels \<longrightarrow> d' = d)"
proof (cases m)
  case CreateLabels
  with assms create_labels_raise [of E d e d'] show ?thesis by auto
next
  case CreateCpuTimeLabel
  with assms create_cpu_time_label_raise [of E d e d'] show ?thesis by auto
next
  case CreatePeakMemoryLabel
  with assms create_peak_memory_label_raise [of E d e d'] show ?thesis by auto
next
  case DropFailedQueries
  with assms drop_failed_queries_raise [of E d "(e, d')"] show ?thesis by simp
next
  case ToLowerQueries
  with assms to_lower_queries_raise [of E d e d'] show ?thesis by auto
next
  case SelectTrainingColumns
  with assms select_training_columns_raise [of E d] show ?thesis by auto
qed

lemma step_raise:
  assumes "step E tr t s = Inl (e, d')"
  shows "(e = DataTransformerException (unavailable s) \<and> unresolved E t s \<and> d' = data_frame t)
       \<or> (s = ''transform'' \<and> tr t = Inl (e, d'))
       \<or> ((\<forall>msg. e \<noteq> DataTransformerException msg) \<and> (s \<noteq> ''create_labels'' \<longrightarrow> d' = data_frame t))"
proof (cases "getattr E s")
  case None
  with assms show ?thesis by (simp add: step_def unresolved_def)
next
  case (Some a)
  show ?thesis
  proof (cases "truth t a")
    case (Inl x)
    with Some assms show ?thesis by (cases a) (auto simp: step_def)
  next
    case (Inr b)
    show ?thesis
    proof (cases b)
      case False
      with Some Inr assms show ?thesis by (simp add: step_def unresolved_def)
    next
      case True
      with Some Inr assms have c: "call E tr t a = Inl (e, d')" by (simp add: step_def)
      show ?thesis
      proof (cases a)
        case TransformMethod
        with Some have "s = ''transform''" by (simp add: getattr_TransformMethod)
        with c TransformMethod show ?thesis by simp
      next
        case (Transformer m)
        with c have r: "run_method E m (data_frame t) = Inl (e, d')" by simp
        have "s \<noteq> ''create_labels'' \<Longrightarrow> m \<noteq> CreateLabels"
          using Some Transformer getattr_CreateLabels [of E s] by auto
        with run_method_raise [OF r] show ?thesis by blast
      next
        case (ObjectAttr b r)
        with c show ?thesis by (auto split: option.splits)
      qed (use c in auto)
    qed
  qed
qed

lemma run_funcs_raise:
  "run_funcs fs d = Inl (e, d') \<Longrightarrow> \<exists>m. e = CollaboratorError m"
  by (induction fs arbitrary: d) (auto split: sum.splits)

lemma run_func_strs_config_error:
  assumes tr: "\<And>t m d'. func_strs t = F \<Longrightarrow> funcs t = G \<Longrightarrow>
                 tr t = Inl (DataTransformerException m, d') \<Longrightarrow>
                 \<exists>n. m = unavailable n \<and> unresolved E t n"
  shows "func_strs t = F \<Longrightarrow> funcs t = G \<Longrightarrow>
         run_func_strs E tr ss t = Inl (DataTransformerException m, d') \<Longrightarrow>
         \<exists>n. m = unavailable n \<and> unresolved E t n"
proof (induction ss arbitrary: t)
  case Nil
  then show ?case by simp
next
  case (Cons s ss)
  show ?case
  proof (cases "step E tr t s")
    case (Inl x)
    with Cons.prems have st: "step E tr t s = Inl (DataTransformerException m, d')" by simp
    from step_raise [OF st] show ?thesis
      using tr [OF Cons.prems(1,2)] by auto
  next
    case (Inr d)
    with Cons.prems have "run_func_strs E tr ss (t\<lparr>data_frame := d\<rparr>)
        = Inl (DataTransformerException m, d')" by simp
    with Cons.IH [of "t\<lparr>data_frame := d\<rparr>"] Cons.prems(1,2)
    show ?thesis by (simp add: unresolved_data_frame)
  qed
qed

lemma transform_config_error:
  "transform E depth t = Inl (DataTransformerException m, d') \<Longrightarrow>
   \<exists>n. m = unavailable n \<and> unresolved E t n"
proof (induction depth arbitrary: t m d')
  case 0
  then show ?case by simp
next
  case (Suc k)
  show ?case
  proof (cases "run_func_strs E (transform E k) (func_strs t) t")
    case (Inl x)
    with Suc.prems have r: "run_func_strs E (transform E k) (func_strs t) t
        = Inl (DataTransformerException m, d')" by simp
    show ?thesis
      by (rule run_func_strs_config_error [where F = "func_strs t" and G = "funcs t", OF _ _ _ r])
         (use Suc.IH in auto)
  next
    case (Inr d)
    with Suc.prems have "run_funcs (funcs t) d = Inl (DataTransformerException m, d')" by simp
    from run_funcs_raise [OF this] show ?thesis by simp
  qed
qed

lemma transform_only_transform:
  "func_strs t = [''transform''] \<Longrightarrow> transform E depth t = Inl (RecursionError, data_frame t)"
  by (induction depth) (simp_all add: step_def getattr_transform)

lemma example_log_dropped:
  "drop_failed_queries example_env example_log =
     Inr \<lparr>columns = [''query'', ''query_state'', ''cpu_ms'', ''mem_bytes''],
          dtypes = [ObjectDtype, ObjectDtype, NumericDtype, NumericDtype],
          rows = [[Str ''SELECT 1'', Str ''FINISHED'', Num 10, Num 2000],
                  [Str ''Show T'', Str ''FINISHED'', Num 5000, Num 50],
                  [Str ''select A'', Str ''FINISHED'', Num 20, Num 9000]]\<rparr>"
  by (simp add: drop_failed_queries_eq) (simp add: example_env_def example_log_def cell_def)

lemma example_unresolved:
  "unresolved example_env t ''not-a-real-step''"
  by (simp add: unresolved_def getattr_def example_env_def example_object_attr_def)

lemma wf_frame_object:
  assumes "wf_frame d" and "c \<in> set (columns d)" and "r \<in> set (rows d)"
    and "is_Str (cell (columns d) r c)"
  shows "dtype_of d c = ObjectDtype"
proof (cases "dtype_of d c")
  case NumericDtype
  with assms(1,2) have "list_all (\<lambda>r. \<not> is_Str (cell (columns d) r c)) (rows d)"
    by (auto simp: wf_frame_def list_all_iff)
  with assms(3,4) show ?thesis by (simp add: list_all_iff)
qed simp

lemma set_dtype_same:
  assumes "wf_frame d" and "c \<in> set (columns d)" and "dtype_of d c = dt"
  shows "set_cell (columns d) c dt (dtypes d) = dtypes d"
proof -
  have len: "length (dtypes d) = length (columns d)" and dist: "distinct (columns d)"
    using assms(1) by (simp_all add: wf_frame_def)
  from assms(2) len obtain x where x: "map_of (zip (columns d) (dtypes d)) c = Some x"
    by (metis map_of_zip_is_Some)
  with assms(3) have "x = dt" by (simp add: dtype_of_def)
  with x show ?thesis using set_cell_same [OF dist len] by simp
qed

lemma step_method_name: "step E tr t (method_name m) = run_method E m (data_frame t)"
  by (cases m) (simp_all add: step_def getattr_def)

lemma run_func_strs_methods:
  "run_func_strs E tr (map method_name ms) t = run_predefined E ms (data_frame t)"
proof (induction ms arbitrary: t)
  case Nil
  show ?case by simp
next
  case (Cons m ms)
  show ?case
    using step_method_name [of E tr t m]
    by (cases m) (simp_all add: Cons.IH split: sum.splits)
qed

lemma foldl_then_custom_returning:
  "foldl then_custom (Inr d) (map returning gs) = Inr (foldl (\<lambda>d g. g d) d gs)"
  by (induction gs arbitrary: d) (simp_all add: then_custom_def returning_def)

lemma to_lower_queries_missing:
  "to_lower_queries example_env example_missing = Inl (AttributeError, example_missing)"
  by (simp add: to_lower_queries_def getitem_label_def dtype_of_def str_lower_def
      str_accessor_ok_def example_env_def example_missing_def)

lemma example_lows:
  "ascii_lower ''SELECT 1'' = ''select 1''"
  "ascii_lower ''Show T'' = ''show t''"
  "ascii_lower ''select A'' = ''select a''"
  by code_simp+

lemma wf_example_log: "wf_frame example_log"
  by (simp add: wf_frame_def example_log_def dtype_of_def cell_def)

lemma example_log_lowered:
  "to_lower_queries example_env
     \<lparr>columns = [''query'', ''query_state'', ''cpu_ms'', ''mem_bytes''],
      dtypes = [ObjectDtype, ObjectDtype, NumericDtype, NumericDtype],
      rows = [[Str ''SELECT 1'', Str ''FINISHED'', Num 10, Num 2000],
              [Str ''Show T'', Str ''FINISHED'', Num 5000, Num 50],
              [Str ''select A'', Str ''FINISHED'', Num 20, Num 9000]]\<rparr> =
   Inr \<lparr>columns = [''query'', ''query_state'', ''cpu_ms'', ''mem_bytes''],
        dtypes = [ObjectDtype, ObjectDtype, NumericDtype, NumericDtype],
        rows = [[Str ''select 1'', Str ''FINISHED'', Num 10, Num 2000],
                [Str ''show t'', Str ''FINISHED'', Num 5000, Num 50],
                [Str ''select a'', Str ''FINISHED'', Num 20, Num 9000]]\<rparr>"
  by (simp add: to_lower_queries_def getitem_label_def dtype_of_def str_lower_def
      str_accessor_ok_def setitem_def set_cell_def cell_def example_env_def example_lows)

lemma example_no_memory_cpu:
  "create_cpu_time_label example_env example_no_memory =
     Inr \<lparr>columns = [''query'', ''cpu_ms'', ''cpu_time_label''],
          dtypes = [ObjectDtype, NumericDtype, ObjectDtype],
          rows = [[Str ''SELECT 1'', Num 10, Str ''low'']]\<rparr>"
  by (simp add: create_cpu_time_label_def setitem_def infer_dtype_def example_env_def
      example_no_memory_def example_label_def)

lemma example_no_memory_peak:
  "create_peak_memory_label example_env
     \<lparr>columns = [''query'', ''cpu_ms'', ''cpu_time_label''],
      dtypes = [ObjectDtype, NumericDtype, ObjectDtype],
      rows = [[Str ''SELECT 1'', Num 10, Str ''low'']]\<rparr> =
   Inl (CollaboratorError ''KeyError'',
     \<lparr>columns = [''query'', ''cpu_ms'', ''cpu_time_label''],
      dtypes = [ObjectDtype, NumericDtype, ObjectDtype],
      rows = [[Str ''SELECT 1'', Num 10, Str ''low'']]\<rparr>)"
  by (simp add: create_peak_memory_label_def example_env_def example_label_def)

section \<open>The claims\<close>

text \<open>
  The specification names the predefined transformers by hyphenated identifiers; the
  methods they denote are \<^verbatim>\<open>drop_failed_queries\<close>, \<^verbatim>\<open>to_lower_queries\<close>,
  \<^verbatim>\<open>create_labels\<close>, \<^verbatim>\<open>create_cpu_time_label\<close>, \<^verbatim>\<open>create_peak_memory_label\<close> and
  \<^verbatim>\<open>select_training_columns\<close>, and these are the names a configuration holds.
\<close>

text \<open>
  C4. For every well-formed data frame, \<^verbatim>\<open>transform\<close> configured with the single step
  \<^verbatim>\<open>drop_failed_queries\<close> and no custom function returns the data frame whose rows are
  exactly the rows whose query-state cell equals \<^verbatim>\<open>FINISHED\<close>, in their order, when the
  query-state column is present, and returns the data frame unchanged when it is absent;
  no error is raised in either case.
\<close>

theorem transform_drop_failed_only:
  assumes "func_strs t = [''drop_failed_queries'']" and "funcs t = []" and "0 < depth"
    and "wf_frame (data_frame t)"
  shows "transform E depth t =
     Inr (if QUERY_STATE_COLUMN E \<in> set (columns (data_frame t))
          then (data_frame t)\<lparr>rows := filter (\<lambda>r. cell (columns (data_frame t)) r (QUERY_STATE_COLUMN E) = Str ''FINISHED'') (rows (data_frame t))\<rparr>
          else data_frame t)"
  using assms(1,2,3)
  by (simp add: transform_pos step_drop_failed_queries drop_failed_queries_eq)

theorem transform_drop_failed_only_witness:
  "transform example_env 1000
     \<lparr>data_frame = example_log, func_strs = [''drop_failed_queries''], funcs = []\<rparr> =
   Inr \<lparr>columns = [''query'', ''query_state'', ''cpu_ms'', ''mem_bytes''],
        dtypes = [ObjectDtype, ObjectDtype, NumericDtype, NumericDtype],
        rows = [[Str ''SELECT 1'', Str ''FINISHED'', Num 10, Num 2000],
                [Str ''Show T'', Str ''FINISHED'', Num 5000, Num 50],
                [Str ''select A'', Str ''FINISHED'', Num 20, Num 9000]]\<rparr>"
proof -
  let ?t = "\<lparr>data_frame = example_log, func_strs = [''drop_failed_queries''], funcs = []\<rparr>"
  have a: "func_strs ?t = [''drop_failed_queries'']" and b: "funcs ?t = []" by simp_all
  have c: "0 < (1000::nat)" by simp
  have w: "wf_frame (data_frame ?t)" by (simp add: wf_example_log)
  from transform_drop_failed_only [OF a b c w, of example_env] show ?thesis
    by (simp add: example_env_def example_log_def cell_def)
qed

text \<open>
  C7. \<^verbatim>\<open>str.lower\<close> being idempotent on strings, for every well-formed data frame that
  has the query column, lower-casing the queries a second time ends exactly as the first
  time did and leaves the held data frame as the first application left it; when the
  \<^verbatim>\<open>.str\<close> accessor accepts the column (a column of dtype \<^verbatim>\<open>object\<close> that holds a
  string or no present cell), both applications return, and the second returns the data
  frame the first returned.
\<close>

theorem to_lower_queries_idempotent:
  assumes "wf_frame d" and "QUERY_COLUMN E \<in> set (columns d)"
    and "\<forall>s. py_lower E (py_lower E s) = py_lower E s"
  shows "to_lower_queries E (held_frame (to_lower_queries E d)) = to_lower_queries E d \<and>
         (str_accessor_ok (dtype_of d (QUERY_COLUMN E),
                           map (\<lambda>r. cell (columns d) r (QUERY_COLUMN E)) (rows d)) \<longrightarrow>
            (\<exists>d1. to_lower_queries E d = Inr d1 \<and> to_lower_queries E d1 = Inr d1))"
proof (intro conjI impI)
  show again: "to_lower_queries E (held_frame (to_lower_queries E d)) = to_lower_queries E d"
    using assms(1,3) by (intro to_lower_queries_again) simp_all
  assume "str_accessor_ok (dtype_of d (QUERY_COLUMN E),
            map (\<lambda>r. cell (columns d) r (QUERY_COLUMN E)) (rows d))"
  with assms(2) obtain d1 where d1: "to_lower_queries E d = Inr d1"
    by (simp add: to_lower_queries_ok)
  with again have "to_lower_queries E d1 = Inr d1" by simp
  with d1 show "\<exists>d1. to_lower_queries E d = Inr d1 \<and> to_lower_queries E d1 = Inr d1" by blast
qed

theorem to_lower_queries_idempotent_witness:
  "wf_frame example_log \<and> QUERY_COLUMN example_env \<in> set (columns example_log) \<and>
   (\<forall>s. py_lower example_env (py_lower example_env s) = py_lower example_env s) \<and>
   to_lower_queries example_env (held_frame (to_lower_queries example_env example_log))
     = to_lower_queries example_env example_log \<and>
   (\<exists>d1. to_lower_queries example_env example_log = Inr d1 \<and>
          to_lower_queries example_env d1 = Inr d1)"
proof -
  have w: "wf_frame example_log" by (rule wf_example_log)
  have q: "QUERY_COLUMN example_env \<in> set (columns example_log)"
    by (simp add: example_env_def example_log_def)
  have i: "\<forall>s. py_lower example_env (py_lower example_env s) = py_lower example_env s"
    by (simp add: example_env_def ascii_lower_idem)
  have ok: "str_accessor_ok (dtype_of example_log (QUERY_COLUMN example_env),
              map (\<lambda>r. cell (columns example_log) r (QUERY_COLUMN example_env)) (rows example_log))"
    by (simp add: str_accessor_ok_def dtype_of_def example_env_def example_log_def cell_def)
  from to_lower_queries_idempotent [OF w q i] ok w q i show ?thesis by blast
qed

text \<open>
  C10. For every data frame, \<^verbatim>\<open>transform\<close> with no step name and no custom function
  returns the held data frame unchanged and raises no error, provided the interpreter
  has a stack frame left for the call.
\<close>

theorem transform_empty:
  assumes "func_strs t = []" and "funcs t = []" and "0 < depth"
  shows "transform E depth t = Inr (data_frame t)"
  using assms by (simp add: transform_pos)

theorem transform_empty_witness:
  "transform example_env 1000 \<lparr>data_frame = example_log, func_strs = [], funcs = []\<rparr> = Inr example_log"
  using transform_empty [of "\<lparr>data_frame = example_log, func_strs = [], funcs = []\<rparr>" 1000 example_env]
  by simp

text \<open>
  C3, as amended. The steps are named by the methods \<^verbatim>\<open>drop_failed_queries\<close> and
  \<^verbatim>\<open>to_lower_queries\<close>. For a well-formed data frame of 5 rows that has the query and the
  query-state columns, 3 rows with state \<^verbatim>\<open>FINISHED\<close> and a non-empty query string and 2
  rows with state \<^verbatim>\<open>FAILED\<close>, \<^verbatim>\<open>transform\<close> with these two steps and no custom function
  returns a data frame with the same columns and exactly 3 rows: the finished rows in
  their order, each with its query lower-cased by \<^verbatim>\<open>str.lower\<close> and every other cell
  unchanged.
\<close>

theorem drop_then_lower_scenario:
  assumes cfg: "func_strs t = [''drop_failed_queries'', ''to_lower_queries'']" "funcs t = []"
    and depth: "0 < depth"
    and wf: "wf_frame (data_frame t)"
    and q: "QUERY_COLUMN E \<in> set (columns (data_frame t))"
    and s: "QUERY_STATE_COLUMN E \<in> set (columns (data_frame t))"
    and five: "length (rows (data_frame t)) = 5"
    and three: "length (finished_rows E (data_frame t)) = 3"
    and two: "length (filter (\<lambda>r. cell (columns (data_frame t)) r (QUERY_STATE_COLUMN E) = Str ''FAILED'')
                        (rows (data_frame t))) = 2"
    and sql: "\<forall>r\<in>set (finished_rows E (data_frame t)).
                \<exists>q. q \<noteq> [] \<and> cell (columns (data_frame t)) r (QUERY_COLUMN E) = Str q"
  shows "\<exists>d'. transform E depth t = Inr d' \<and>
           columns d' = columns (data_frame t) \<and>
           dtypes d' = dtypes (data_frame t) \<and>
           length (rows d') = 3 \<and>
           rows d' = map (\<lambda>r. set_cell (columns (data_frame t)) (QUERY_COLUMN E)
                                 (lower_val (py_lower E) (cell (columns (data_frame t)) r (QUERY_COLUMN E))) r)
                         (finished_rows E (data_frame t)) \<and>
           (\<forall>i<3. \<forall>c\<in>set (columns (data_frame t)).
              cell (columns (data_frame t)) (rows d' ! i) c =
                (if c = QUERY_COLUMN E
                 then lower_val (py_lower E)
                        (cell (columns (data_frame t)) (finished_rows E (data_frame t) ! i) c)
                 else cell (columns (data_frame t)) (finished_rows E (data_frame t) ! i) c))"
proof -
  define d where "d = data_frame t"
  define finished where "finished = finished_rows E d"
  define d2 where "d2 = d\<lparr>rows := finished\<rparr>"
  define d3 where "d3 = d2\<lparr>rows := map (\<lambda>r. set_cell (columns d) (QUERY_COLUMN E)
                         (lower_val (py_lower E) (cell (columns d) r (QUERY_COLUMN E))) r) finished\<rparr>"
  have wfd: "wf_frame d" and qd: "QUERY_COLUMN E \<in> set (columns d)"
    using wf q by (simp_all add: d_def)
  have len3: "length finished = 3" using three by (simp add: finished_def d_def)
  have sub: "set finished \<subseteq> set (rows d)" by (auto simp: finished_def finished_rows_def)
  have drop: "drop_failed_queries E d = Inr d2"
    using s by (simp add: drop_failed_queries_eq d2_def finished_def finished_rows_def d_def)
  have cols2: "columns d2 = columns d" and dts2: "dtypes d2 = dtypes d"
    and rows2: "rows d2 = finished"
    by (simp_all add: d2_def)
  have strs: "\<forall>r\<in>set finished. is_Str (cell (columns d) r (QUERY_COLUMN E))"
    using sql by (auto simp: d_def finished_def)
  from len3 obtain r0 where r0: "r0 \<in> set finished" by (cases finished) auto
  with sub strs have "r0 \<in> set (rows d)" and "is_Str (cell (columns d) r0 (QUERY_COLUMN E))"
    by auto
  with wfd qd have obj: "dtype_of d (QUERY_COLUMN E) = ObjectDtype" by (rule wf_frame_object)
  then have obj2: "dtype_of d2 (QUERY_COLUMN E) = ObjectDtype"
    by (simp add: dtype_of_def cols2 dts2)
  have "\<forall>v\<in>set (map (\<lambda>r. cell (columns d) r (QUERY_COLUMN E)) finished). is_Str v"
    using strs by simp
  then have "str_accessor_ok (ObjectDtype, map (\<lambda>r. cell (columns d) r (QUERY_COLUMN E)) finished)"
    by (rule str_accessor_ok_strings)
  then have ok: "str_accessor_ok (dtype_of d2 (QUERY_COLUMN E),
                   map (\<lambda>r. cell (columns d2) r (QUERY_COLUMN E)) (rows d2))"
    by (simp add: obj2 cols2 rows2)
  have same: "set_cell (columns d) (QUERY_COLUMN E) ObjectDtype (dtypes d) = dtypes d"
    using wfd qd obj by (rule set_dtype_same)
  have "QUERY_COLUMN E \<in> set (columns d2)" using qd by (simp add: cols2)
  from to_lower_queries_ok [OF this ok] have lower: "to_lower_queries E d2 = Inr d3"
    by (simp add: cols2 dts2 rows2 d3_def same)
  have run: "transform E depth t = Inr d3"
    using cfg depth drop lower
    by (simp add: transform_pos step_drop_failed_queries step_to_lower_queries d_def)
  have len: "length (finished ! i) = length (columns d)" if "i < 3" for i
  proof -
    from that len3 have "finished ! i \<in> set finished" by simp
    with sub have "finished ! i \<in> set (rows d)" by blast
    with wfd show ?thesis by (rule wf_frame_row)
  qed
  have cells: "\<forall>i<3. \<forall>c\<in>set (columns d).
              cell (columns d) (rows d3 ! i) c =
                (if c = QUERY_COLUMN E
                 then lower_val (py_lower E) (cell (columns d) (finished ! i) c)
                 else cell (columns d) (finished ! i) c)"
    using len3 qd len by (simp add: d3_def cell_set_cell)
  have "columns d3 = columns d" and "dtypes d3 = dtypes d" by (simp_all add: d3_def d2_def)
  moreover have "rows d3 = map (\<lambda>r. set_cell (columns d) (QUERY_COLUMN E)
                        (lower_val (py_lower E) (cell (columns d) r (QUERY_COLUMN E))) r) finished"
    by (simp add: d3_def)
  moreover have "length (rows d3) = 3" using len3 by (simp add: d3_def)
  ultimately show ?thesis
    using run cells unfolding finished_def d_def by blast
qed

theorem drop_then_lower_scenario_witness:
  "transform example_env 1000
     \<lparr>data_frame = example_log, func_strs = [''drop_failed_queries'', ''to_lower_queries''],
      funcs = []\<rparr> =
   Inr \<lparr>columns = [''query'', ''query_state'', ''cpu_ms'', ''mem_bytes''],
        dtypes = [ObjectDtype, ObjectDtype, NumericDtype, NumericDtype],
        rows = [[Str ''select 1'', Str ''FINISHED'', Num 10, Num 2000],
                [Str ''show t'', Str ''FINISHED'', Num 5000, Num 50],
                [Str ''select a'', Str ''FINISHED'', Num 20, Num 9000]]\<rparr>"
proof -
  let ?t = "\<lparr>data_frame = example_log, func_strs = [''drop_failed_queries'', ''to_lower_queries''],
      funcs = []\<rparr>"
  have cfg: "func_strs ?t = [''drop_failed_queries'', ''to_lower_queries'']" "funcs ?t = []"
    by simp_all
  have depth: "0 < (1000::nat)" by simp
  have wf: "wf_frame (data_frame ?t)" by (simp add: wf_example_log)
  have q: "QUERY_COLUMN example_env \<in> set (columns (data_frame ?t))"
    and s: "QUERY_STATE_COLUMN example_env \<in> set (columns (data_frame ?t))"
    by (simp_all add: example_env_def example_log_def)
  have five: "length (rows (data_frame ?t)) = 5" by (simp add: example_log_def)
  have three: "length (finished_rows example_env (data_frame ?t)) = 3"
    by (simp add: example_log_finished)
  have two: "length (filter (\<lambda>r. cell (columns (data_frame ?t)) r (QUERY_STATE_COLUMN example_env) = Str ''FAILED'')
                        (rows (data_frame ?t))) = 2"
    by (simp add: example_env_def example_log_def cell_def)
  have sql: "\<forall>r\<in>set (finished_rows example_env (data_frame ?t)).
                \<exists>q. q \<noteq> [] \<and> cell (columns (data_frame ?t)) r (QUERY_COLUMN example_env) = Str q"
    by (simp add: example_log_finished) (simp add: example_env_def example_log_def cell_def)
  from drop_then_lower_scenario [OF cfg depth wf q s five three two sql]
  obtain d' where run: "transform example_env 1000 ?t = Inr d'"
     and cols: "columns d' = columns (data_frame ?t)"
     and dts: "dtypes d' = dtypes (data_frame ?t)"
     and rws: "rows d' = map (\<lambda>r. set_cell (columns (data_frame ?t)) (QUERY_COLUMN example_env)
                   (lower_val (py_lower example_env)
                      (cell (columns (data_frame ?t)) r (QUERY_COLUMN example_env))) r)
                     (finished_rows example_env (data_frame ?t))"
    by blast
  have "rows d' = [[Str ''select 1'', Str ''FINISHED'', Num 10, Num 2000],
                [Str ''show t'', Str ''FINISHED'', Num 5000, Num 50],
                [Str ''select a'', Str ''FINISHED'', Num 20, Num 9000]]"
    unfolding rws by (simp add: example_log_finished)
      (simp add: example_env_def example_log_def cell_def set_cell_def example_lows)
  moreover have "columns d' = [''query'', ''query_state'', ''cpu_ms'', ''mem_bytes'']"
    using cols by (simp add: example_log_def)
  moreover have "dtypes d' = [ObjectDtype, ObjectDtype, NumericDtype, NumericDtype]"
    using dts by (simp add: example_log_def)
  ultimately have "d' = \<lparr>columns = [''query'', ''query_state'', ''cpu_ms'', ''mem_bytes''],
        dtypes = [ObjectDtype, ObjectDtype, NumericDtype, NumericDtype],
        rows = [[Str ''select 1'', Str ''FINISHED'', Num 10, Num 2000],
                [Str ''show t'', Str ''FINISHED'', Num 5000, Num 50],
                [Str ''select a'', Str ''FINISHED'', Num 20, Num 9000]]\<rparr>"
    by (cases d') simp
  with run show ?thesis by simp
qed

text \<open>
  The claim as stated fails: the hyphenated names are not attributes of the object, so the
  first of them raises the configuration error and the data frame is left as it was.
\<close>

theorem hyphenated_step_names_counterexample:
  "transform example_env 1000
     \<lparr>data_frame = example_log, func_strs = [''drop-failed-queries'', ''to-lower-queries''],
      funcs = []\<rparr> =
   Inl (DataTransformerException ''drop-failed-queries is not an available transformer'',
        example_log)"
  by (simp add: transform_pos step_def getattr_def unavailable_def example_env_def
      example_object_attr_def)



text \<open>
  C6. For every well-formed data frame and every configuration of names of predefined
  transformers and custom functions, \<^verbatim>\<open>transform\<close> first applies the named transformers in the
  order given, each to the data frame the one before left, and then the custom
  functions in the order given: the first receives the data frame the predefined steps
  produced, each next one the return value of the one before, and the last return value
  is returned. When a predefined step or a custom function fails, nothing more runs. For
  custom functions that always return, the result is their composition in order applied
  to the data frame the predefined steps produced.
\<close>

theorem custom_functions_after_predefined:
  assumes "0 < depth" and "func_strs t = map method_name ms" and "wf_frame (data_frame t)"
  shows "transform E depth t =
           foldl then_custom (run_predefined E ms (data_frame t)) (funcs t) \<and>
         (\<forall>gs. funcs t = map returning gs \<longrightarrow>
            transform E depth t =
              (case run_predefined E ms (data_frame t) of
                 Inl x \<Rightarrow> Inl x
               | Inr d \<Rightarrow> Inr (foldl (\<lambda>d g. g d) d gs)))"
proof (intro conjI allI impI)
  show eq: "transform E depth t =
           foldl then_custom (run_predefined E ms (data_frame t)) (funcs t)"
    using assms(1,2)
    by (simp add: transform_pos run_func_strs_methods run_funcs_foldl foldl_then_custom_Inl
        split: sum.splits)
  fix gs assume "funcs t = map returning gs"
  with eq show "transform E depth t =
              (case run_predefined E ms (data_frame t) of
                 Inl x \<Rightarrow> Inl x
               | Inr d \<Rightarrow> Inr (foldl (\<lambda>d g. g d) d gs))"
    by (simp add: foldl_then_custom_Inl foldl_then_custom_returning split: sum.splits)
qed

theorem custom_functions_after_predefined_witness:
  "transform example_env 1000
     \<lparr>data_frame = example_log, func_strs = [''drop_failed_queries'', ''to_lower_queries''],
      funcs = [example_tail, example_head]\<rparr> =
   Inr \<lparr>columns = [''query'', ''query_state'', ''cpu_ms'', ''mem_bytes''],
        dtypes = [ObjectDtype, ObjectDtype, NumericDtype, NumericDtype],
        rows = [[Str ''show t'', Str ''FINISHED'', Num 5000, Num 50]]\<rparr>"
proof -
  let ?t = "\<lparr>data_frame = example_log, func_strs = [''drop_failed_queries'', ''to_lower_queries''],
      funcs = [example_tail, example_head]\<rparr>"
  have a: "0 < (1000::nat)" by simp
  have b: "func_strs ?t = map method_name [DropFailedQueries, ToLowerQueries]" by simp
  have w: "wf_frame (data_frame ?t)" by (simp add: wf_example_log)
  from custom_functions_after_predefined [OF a b w, of example_env]
  have "transform example_env 1000 ?t =
          foldl then_custom (run_predefined example_env [DropFailedQueries, ToLowerQueries]
                               (data_frame ?t)) (funcs ?t)"
    by blast
  then show ?thesis
    by (simp add: example_log_dropped example_log_lowered then_custom_def example_tail_def
        example_head_def)
qed

text \<open>
  C2. On a data frame that has the query column and, after \<^verbatim>\<open>create_labels\<close>, both
  label columns, \<^verbatim>\<open>select_training_columns\<close> does not return the three columns: the key
  of its subscript is a tuple, which is looked up as one label, and \<open>KeyError\<close> is raised
  while the object still holds all five columns.
\<close>

theorem select_training_columns_raises:
  "transform example_env 1000
     \<lparr>data_frame = example_small, func_strs = [''create_labels'', ''select_training_columns''],
      funcs = []\<rparr> =
   Inl (KeyError (Tuple [''query'', ''cpu_time_label'', ''peak_memory_label'']),
        \<lparr>columns = [''query'', ''cpu_ms'', ''mem_bytes'', ''cpu_time_label'', ''peak_memory_label''],
         dtypes = [ObjectDtype, NumericDtype, NumericDtype, ObjectDtype, ObjectDtype],
         rows = [[Str ''SELECT 1'', Num 10, Num 2000, Str ''low'', Str ''high'']]\<rparr>)"
proof -
  have labels: "create_labels example_env example_small =
     Inr \<lparr>columns = [''query'', ''cpu_ms'', ''mem_bytes'', ''cpu_time_label'', ''peak_memory_label''],
         dtypes = [ObjectDtype, NumericDtype, NumericDtype, ObjectDtype, ObjectDtype],
         rows = [[Str ''SELECT 1'', Num 10, Num 2000, Str ''low'', Str ''high'']]\<rparr>"
    by (simp add: create_labels_def create_cpu_time_label_def create_peak_memory_label_def
        setitem_def infer_dtype_def example_env_def example_small_def example_label_def)
  show ?thesis
    by (simp add: transform_pos step_create_labels step_select_training_columns labels
        select_training_columns_def getitem_tuple_def)
      (simp add: example_env_def)
qed

text \<open>
  C1, as amended. Name resolution is lazy: a name is resolved when the loop reaches it.
  When the step names before an unresolved name all return, \<^verbatim>\<open>transform\<close> raises
  \<^verbatim>\<open>DataTransformerException\<close> with the message naming the unresolved name; the object
  then holds the data frame those earlier steps produced, and neither the unresolved
  step nor any later step name nor any custom function runs (the outcome does not depend
  on them).
\<close>

theorem unresolved_name_aborts:
  assumes "0 < depth"
    and "func_strs t = pre @ s # rest"
    and "run_func_strs E (transform E (depth - 1)) pre t = Inr d"
    and "getattr E s = None \<or> (\<exists>a. getattr E s = Some a \<and> truth t a = Inr False)"
  shows "transform E depth t = Inl (DataTransformerException (unavailable s), d)"
proof -
  from assms(4) have "unresolved E t s" by (auto simp: unresolved_def)
  then have "unresolved E (t\<lparr>data_frame := d\<rparr>) s" by (simp add: unresolved_data_frame)
  then have "step E (transform E (depth - 1)) (t\<lparr>data_frame := d\<rparr>) s =
      Inl (DataTransformerException (unavailable s), d)"
    using step_unresolved [of E "t\<lparr>data_frame := d\<rparr>" s] by simp
  with assms(1,2,3) show ?thesis
    by (simp add: transform_pos run_func_strs_append)
qed

theorem unresolved_name_aborts_witness:
  "transform example_env 1000
     \<lparr>data_frame = example_log,
      func_strs = [''drop_failed_queries'', ''not-a-real-step'', ''to_lower_queries''],
      funcs = [example_head]\<rparr> =
   Inl (DataTransformerException ''not-a-real-step is not an available transformer'',
        \<lparr>columns = [''query'', ''query_state'', ''cpu_ms'', ''mem_bytes''],
         dtypes = [ObjectDtype, ObjectDtype, NumericDtype, NumericDtype],
         rows = [[Str ''SELECT 1'', Str ''FINISHED'', Num 10, Num 2000],
                 [Str ''Show T'', Str ''FINISHED'', Num 5000, Num 50],
                 [Str ''select A'', Str ''FINISHED'', Num 20, Num 9000]]\<rparr>)"
proof -
  let ?t = "\<lparr>data_frame = example_log,
      func_strs = [''drop_failed_queries'', ''not-a-real-step'', ''to_lower_queries''],
      funcs = [example_head]\<rparr>"
  let ?d = "\<lparr>columns = [''query'', ''query_state'', ''cpu_ms'', ''mem_bytes''],
         dtypes = [ObjectDtype, ObjectDtype, NumericDtype, NumericDtype],
         rows = [[Str ''SELECT 1'', Str ''FINISHED'', Num 10, Num 2000],
                 [Str ''Show T'', Str ''FINISHED'', Num 5000, Num 50],
                 [Str ''select A'', Str ''FINISHED'', Num 20, Num 9000]]\<rparr>"
  have a: "0 < (1000::nat)" by simp
  have b: "func_strs ?t = [''drop_failed_queries''] @ ''not-a-real-step'' # [''to_lower_queries'']"
    by simp
  have c: "run_func_strs example_env (transform example_env (1000 - 1)) [''drop_failed_queries''] ?t
           = Inr ?d"
    by (simp add: step_drop_failed_queries example_log_dropped)
  have d: "getattr example_env ''not-a-real-step'' = None \<or>
           (\<exists>a. getattr example_env ''not-a-real-step'' = Some a \<and> truth ?t a = Inr False)"
    by (simp add: getattr_def example_env_def example_object_attr_def)
  from unresolved_name_aborts [OF a b c d] show ?thesis by (simp add: unavailable_def)
qed

text \<open>
  The claim as stated fails: with a resolvable step before the unresolved name, that step
  has executed its effect when the configuration error is raised.
\<close>

theorem unresolved_name_after_step_counterexample:
  "transform example_env 1000
     \<lparr>data_frame = example_log, func_strs = [''drop_failed_queries'', ''not-a-real-step''],
      funcs = []\<rparr> =
   Inl (DataTransformerException ''not-a-real-step is not an available transformer'',
        \<lparr>columns = [''query'', ''query_state'', ''cpu_ms'', ''mem_bytes''],
         dtypes = [ObjectDtype, ObjectDtype, NumericDtype, NumericDtype],
         rows = [[Str ''SELECT 1'', Str ''FINISHED'', Num 10, Num 2000],
                 [Str ''Show T'', Str ''FINISHED'', Num 5000, Num 50],
                 [Str ''select A'', Str ''FINISHED'', Num 20, Num 9000]]\<rparr>) \<and>
   \<lparr>columns = [''query'', ''query_state'', ''cpu_ms'', ''mem_bytes''],
         dtypes = [ObjectDtype, ObjectDtype, NumericDtype, NumericDtype],
         rows = [[Str ''SELECT 1'', Str ''FINISHED'', Num 10, Num 2000],
                 [Str ''Show T'', Str ''FINISHED'', Num 5000, Num 50],
                 [Str ''select A'', Str ''FINISHED'', Num 20, Num 9000]]\<rparr> \<noteq> example_log"
  by (simp add: transform_pos step_drop_failed_queries example_log_dropped
      step_unresolved [OF example_unresolved] unavailable_def)
    (simp add: example_log_def)

text \<open>
  C8, as amended. When the step names before step N all return and step N fails, there
  is no rollback: \<^verbatim>\<open>transform\<close> raises the exception of step N and no later step
  runs. The object then holds exactly the data frame as of the end of step N-1 unless
  step N is \<^verbatim>\<open>create_labels\<close> or \<^verbatim>\<open>transform\<close>. When step N is \<^verbatim>\<open>create_labels\<close> and
  its CPU-time delegate fails, the object holds the data frame of step N-1; when the
  CPU-time delegate returns and the peak-memory delegate fails, the object holds the data
  frame of step N-1 with the CPU-time label column assigned.
\<close>

theorem failure_keeps_earlier_steps:
  assumes "0 < depth"
    and "func_strs t = pre @ s # rest"
    and "run_func_strs E (transform E (depth - 1)) pre t = Inr d"
    and "step E (transform E (depth - 1)) (t\<lparr>data_frame := d\<rparr>) s = Inl (e, d')"
  shows "transform E depth t = Inl (e, d') \<and>
         (s \<noteq> ''create_labels'' \<and> s \<noteq> ''transform'' \<longrightarrow> d' = d) \<and>
         (s = ''create_labels'' \<longrightarrow>
            (case create_cpu_time_label E d of
               Inl x \<Rightarrow> x = (e, d) \<and> d' = d
             | Inr d1 \<Rightarrow>
                 create_peak_memory_label E d1 = Inl (e, d1) \<and> d' = d1 \<and>
                 (\<exists>vs. apply_axis1 (cpu_time_label E) (columns d) (rows d) = Inr vs \<and>
                       d1 = setitem d (CPU_TIME_LABEL E) (infer_dtype vs, vs))))"
proof (intro conjI impI)
  show "transform E depth t = Inl (e, d')"
    using assms by (simp add: transform_pos run_func_strs_append)
  show "d' = d" if "s \<noteq> ''create_labels'' \<and> s \<noteq> ''transform''"
    using step_raise [OF assms(4)] that by auto
  show "case create_cpu_time_label E d of
               Inl x \<Rightarrow> x = (e, d) \<and> d' = d
             | Inr d1 \<Rightarrow>
                 create_peak_memory_label E d1 = Inl (e, d1) \<and> d' = d1 \<and>
                 (\<exists>vs. apply_axis1 (cpu_time_label E) (columns d) (rows d) = Inr vs \<and>
                       d1 = setitem d (CPU_TIME_LABEL E) (infer_dtype vs, vs))"
    if "s = ''create_labels''"
  proof -
    from assms(4) that have cl: "create_labels E d = Inl (e, d')"
      by (simp add: step_def getattr_def)
    show ?thesis
    proof (cases "create_cpu_time_label E d")
      case (Inl x)
      with cl have "x = (e, d')" by (simp add: create_labels_def)
      moreover from this Inl have "d' = d"
        using create_cpu_time_label_raise [of E d e d'] by simp
      ultimately show ?thesis using Inl by simp
    next
      case (Inr d1)
      with cl have p: "create_peak_memory_label E d1 = Inl (e, d')"
        by (simp add: create_labels_def)
      from create_peak_memory_label_raise [OF p] have "d' = d1" by simp
      moreover from Inr have "\<exists>vs. apply_axis1 (cpu_time_label E) (columns d) (rows d) = Inr vs \<and>
                       d1 = setitem d (CPU_TIME_LABEL E) (infer_dtype vs, vs)"
        by (auto simp: create_cpu_time_label_def split: sum.splits)
      ultimately show ?thesis using Inr p by simp
    qed
  qed
qed

theorem failure_keeps_earlier_steps_witness:
  "transform example_env 1000
     \<lparr>data_frame = example_no_memory,
      func_strs = [''drop_failed_queries'', ''create_labels'', ''to_lower_queries''],
      funcs = [example_tail]\<rparr> =
   Inl (CollaboratorError ''KeyError'',
        \<lparr>columns = [''query'', ''cpu_ms'', ''cpu_time_label''],
         dtypes = [ObjectDtype, NumericDtype, ObjectDtype],
         rows = [[Str ''SELECT 1'', Num 10, Str ''low'']]\<rparr>) \<and>
   create_cpu_time_label example_env example_no_memory =
     Inr \<lparr>columns = [''query'', ''cpu_ms'', ''cpu_time_label''],
          dtypes = [ObjectDtype, NumericDtype, ObjectDtype],
          rows = [[Str ''SELECT 1'', Num 10, Str ''low'']]\<rparr>"
proof -
  let ?t = "\<lparr>data_frame = example_no_memory,
      func_strs = [''drop_failed_queries'', ''create_labels'', ''to_lower_queries''],
      funcs = [example_tail]\<rparr>"
  let ?d1 = "\<lparr>columns = [''query'', ''cpu_ms'', ''cpu_time_label''],
         dtypes = [ObjectDtype, NumericDtype, ObjectDtype],
         rows = [[Str ''SELECT 1'', Num 10, Str ''low'']]\<rparr>"
  have a: "0 < (1000::nat)" by simp
  have b: "func_strs ?t = [''drop_failed_queries''] @ ''create_labels'' # [''to_lower_queries'']"
    by simp
  have c: "run_func_strs example_env (transform example_env (1000 - 1)) [''drop_failed_queries''] ?t
           = Inr example_no_memory"
    by (simp add: step_drop_failed_queries drop_failed_queries_eq)
       (simp add: example_env_def example_no_memory_def)
  have d: "step example_env (transform example_env (1000 - 1)) (?t\<lparr>data_frame := example_no_memory\<rparr>)
             ''create_labels'' = Inl (CollaboratorError ''KeyError'', ?d1)"
    by (simp add: step_create_labels create_labels_def example_no_memory_cpu example_no_memory_peak)
  from failure_keeps_earlier_steps [OF a b c d] show ?thesis
    by (simp add: example_no_memory_cpu)
qed

text \<open>
  The claim as stated fails: \<^verbatim>\<open>create_labels\<close> assigns the CPU-time label column in
  place before the peak-memory label creator fails, so a part of the effect of the
  failing step is kept.
\<close>

theorem create_labels_partial_effect_counterexample:
  "transform example_env 1000
     \<lparr>data_frame = example_no_memory, func_strs = [''create_labels''], funcs = []\<rparr> =
   Inl (CollaboratorError ''KeyError'',
        \<lparr>columns = [''query'', ''cpu_ms'', ''cpu_time_label''],
         dtypes = [ObjectDtype, NumericDtype, ObjectDtype],
         rows = [[Str ''SELECT 1'', Num 10, Str ''low'']]\<rparr>) \<and>
   \<lparr>columns = [''query'', ''cpu_ms'', ''cpu_time_label''],
    dtypes = [ObjectDtype, NumericDtype, ObjectDtype],
    rows = [[Str ''SELECT 1'', Num 10, Str ''low'']]\<rparr> \<noteq> example_no_memory"
proof -
  have "create_labels example_env example_no_memory =
     Inl (CollaboratorError ''KeyError'',
        \<lparr>columns = [''query'', ''cpu_ms'', ''cpu_time_label''],
         dtypes = [ObjectDtype, NumericDtype, ObjectDtype],
         rows = [[Str ''SELECT 1'', Num 10, Str ''low'']]\<rparr>)"
    by (simp add: create_labels_def example_no_memory_cpu example_no_memory_peak)
  then show ?thesis
    by (simp add: transform_pos step_create_labels) (simp add: example_no_memory_def)
qed

text \<open>
  C9. Dispatching a name raises the configuration error for that name exactly when
  \<^verbatim>\<open>getattr\<close> finds no attribute of that name or finds one whose truth value is false.
  The name \<^verbatim>\<open>transform\<close>, which is not a predefined transformer, resolves to the method
  itself: the step invokes it, and the configuration error for \<^verbatim>\<open>transform\<close> is never
  raised.
\<close>

theorem resolution_by_attribute_lookup:
  "((\<exists>d'. step E (transform E depth) t s = Inl (DataTransformerException (unavailable s), d'))
      \<longleftrightarrow> (getattr E s = None \<or> (\<exists>a. getattr E s = Some a \<and> truth t a = Inr False))) \<and>
   getattr E ''transform'' = Some TransformMethod \<and>
   step E (transform E depth) t ''transform'' = transform E depth t \<and>
   (\<forall>d'. transform E depth t \<noteq> Inl (DataTransformerException (unavailable ''transform''), d'))"
proof (intro conjI allI)
  have unres: "unresolved E t s \<longleftrightarrow>
      (getattr E s = None \<or> (\<exists>a. getattr E s = Some a \<and> truth t a = Inr False))"
    by (auto simp: unresolved_def split: option.splits)
  have not_transform: "\<not> unresolved E t ''transform''"
    by (simp add: unresolved_def getattr_transform)
  have no_err: "transform E depth t \<noteq> Inl (DataTransformerException (unavailable ''transform''), d')"
    for d'
  proof
    assume "transform E depth t = Inl (DataTransformerException (unavailable ''transform''), d')"
    from transform_config_error [OF this] obtain n
      where "unavailable ''transform'' = unavailable n" and "unresolved E t n" by blast
    with not_transform show False by (auto dest: unavailable_inj)
  qed
  show "(\<exists>d'. step E (transform E depth) t s = Inl (DataTransformerException (unavailable s), d'))
      \<longleftrightarrow> (getattr E s = None \<or> (\<exists>a. getattr E s = Some a \<and> truth t a = Inr False))"
  proof
    assume "\<exists>d'. step E (transform E depth) t s = Inl (DataTransformerException (unavailable s), d')"
    then obtain d' where
      st: "step E (transform E depth) t s = Inl (DataTransformerException (unavailable s), d')"
      by blast
    from step_raise [OF st] no_err have "unresolved E t s" by auto
    with unres show "getattr E s = None \<or> (\<exists>a. getattr E s = Some a \<and> truth t a = Inr False)"
      by simp
  next
    assume "getattr E s = None \<or> (\<exists>a. getattr E s = Some a \<and> truth t a = Inr False)"
    with unres have "unresolved E t s" by simp
    from step_unresolved [OF this] show
      "\<exists>d'. step E (transform E depth) t s = Inl (DataTransformerException (unavailable s), d')"
      by blast
  qed
  show "getattr E ''transform'' = Some TransformMethod" by (rule getattr_transform)
  show "step E (transform E depth) t ''transform'' = transform E depth t"
    by (simp add: step_def getattr_transform)
  show "transform E depth t \<noteq> Inl (DataTransformerException (unavailable ''transform''), d')" for d'
    by (rule no_err)
qed

theorem resolution_by_attribute_lookup_witness:
  "getattr example_env ''__weakref__'' = Some (ObjectAttr False None) \<and>
   (\<exists>d'. step example_env (transform example_env 999)
            \<lparr>data_frame = example_log, func_strs = [''__weakref__'', ''transform''], funcs = []\<rparr>
            ''__weakref__'' =
          Inl (DataTransformerException (unavailable ''__weakref__''), d')) \<and>
   step example_env (transform example_env 999)
      \<lparr>data_frame = example_log, func_strs = [''transform''], funcs = []\<rparr> ''transform'' =
     Inl (RecursionError, example_log)"
proof -
  let ?t = "\<lparr>data_frame = example_log, func_strs = [''__weakref__'', ''transform''], funcs = []\<rparr>"
  let ?u = "\<lparr>data_frame = example_log, func_strs = [''transform''], funcs = []\<rparr>"
  have g: "getattr example_env ''__weakref__'' = Some (ObjectAttr False None)"
    by (simp add: getattr_def example_env_def example_object_attr_def)
  then have "getattr example_env ''__weakref__'' = None \<or>
      (\<exists>a. getattr example_env ''__weakref__'' = Some a \<and> truth ?t a = Inr False)"
    by simp
  with resolution_by_attribute_lookup [of example_env 999 ?t "''__weakref__''"]
  have "\<exists>d'. step example_env (transform example_env 999) ?t ''__weakref__'' =
          Inl (DataTransformerException (unavailable ''__weakref__''), d')"
    by blast
  moreover from resolution_by_attribute_lookup [of example_env 999 ?u "''transform''"]
  have "step example_env (transform example_env 999) ?u ''transform'' = transform example_env 999 ?u"
    by blast
  then have "step example_env (transform example_env 999) ?u ''transform'' =
      Inl (RecursionError, example_log)"
    by (simp add: transform_only_transform)
  ultimately show ?thesis using g by blast
qed

end
